theory Spec2Isabelle
  imports Main "HOL-Library.Word"
begin

section \<open>Identifier factory of the wormholes generator service\<close>

text \<open>
  The development follows \<^verbatim>\<open>services/generator/factory.go\<close>. A Go string is an
  immutable sequence of bytes and is modelled by its value, a \<^typ>\<open>string\<close> (a list of
  8-bit characters); a byte slice is modelled the same way. Only the section on
  \<^verbatim>\<open>fasterByte\<close> looks below the value, at headers and memory.
\<close>

subsection \<open>Strings, byte slices and memory\<close>

type_synonym byte = char
type_synonym addr = "64 word"
type_synonym memory = "addr \<Rightarrow> byte"

text \<open>\<^verbatim>\<open>reflect.StringHeader\<close>: where the bytes of a string start, and how many there are.\<close>

record StringHeader =
  Data :: addr
  Len :: nat

text \<open>A slice value: pointer to the first element, length and capacity.\<close>

record ByteSlice =
  array :: addr
  len :: nat
  cap :: nat

text \<open>The i-th byte of a string and the i-th element of a slice, read from memory.\<close>

definition stringByte :: "memory \<Rightarrow> StringHeader \<Rightarrow> nat \<Rightarrow> byte" where
  "stringByte mem s i = mem (Data s + of_nat i)"

definition sliceByte :: "memory \<Rightarrow> ByteSlice \<Rightarrow> nat \<Rightarrow> byte" where
  "sliceByte mem b i = mem (array b + of_nat i)"

definition stringValue :: "memory \<Rightarrow> StringHeader \<Rightarrow> string" where
  "stringValue mem s = map (stringByte mem s) [0..<Len s]"

definition sliceValue :: "memory \<Rightarrow> ByteSlice \<Rightarrow> byte list" where
  "sliceValue mem b = map (sliceByte mem b) [0..<len b]"

text \<open>
  \<^verbatim>\<open>fasterByte(s)\<close> is \<^verbatim>\<open>unsafe.Slice((*byte)(unsafe.Pointer(hdr.Data)), len(s))\<close> with
  \<^verbatim>\<open>hdr\<close> the string header of \<^verbatim>\<open>s\<close>: a slice that starts at the string's own bytes,
  with length and capacity \<^verbatim>\<open>len(s)\<close>. Nothing is copied.
\<close>

definition fasterByte :: "StringHeader \<Rightarrow> ByteSlice" where
  "fasterByte s = \<lparr>array = Data s, len = Len s, cap = Len s\<rparr>"

subsection \<open>Membership filter\<close>

text \<open>
  Modelled from the spec: the type \<^verbatim>\<open>Bloom\<close> with \<^verbatim>\<open>NewBloom\<close>, \<^verbatim>\<open>Add\<close> and \<^verbatim>\<open>Exists\<close> is
  not among the sources. The spec describes a Bloom filter: a probabilistic set,
  sized at construction, with insertion and a membership test that may answer true
  for an absent key and never answers false for an added one. It is modelled as the
  set of bit positions that are on, together with the hash functions that the sizing
  parameters determine; these are a parameter of the model.
\<close>

record Bloom =
  bits :: "nat set"
  hashes :: "(byte list \<Rightarrow> nat) list"

definition NewBloom :: "(byte list \<Rightarrow> nat) list \<Rightarrow> Bloom" where
  "NewBloom hs = \<lparr>bits = {}, hashes = hs\<rparr>"

definition Bloom_Add :: "byte list \<Rightarrow> Bloom \<Rightarrow> Bloom" where
  "Bloom_Add key b = b\<lparr>bits := bits b \<union> set (map (\<lambda>h. h key) (hashes b))\<rparr>"

definition Bloom_Exists :: "byte list \<Rightarrow> Bloom \<Rightarrow> bool" where
  "Bloom_Exists key b = list_all (\<lambda>h. h key \<in> bits b) (hashes b)"

subsection \<open>Bucket pool\<close>

datatype BucketStatus = BucketEmpty | BucketBusy | BucketFull

text \<open>
  The fields of \<^verbatim>\<open>MemStore\<close> that the factory reads and writes: \<^verbatim>\<open>buckets[idx][k]\<close>,
  \<^verbatim>\<open>status[idx]\<close> and \<^verbatim>\<open>capacity\<close>. The mutex is not a field of the model: what runs
  between \<^verbatim>\<open>Lock\<close> and \<^verbatim>\<open>Unlock\<close> is one atomic step.
\<close>

record MemStore =
  buckets :: "string list list"
  status :: "BucketStatus list"
  capacity :: nat

text \<open>
  Every bucket has a status and holds exactly \<^verbatim>\<open>capacity\<close> identifiers.
\<close>

definition wfStore :: "MemStore \<Rightarrow> bool" where
  "wfStore m \<longleftrightarrow> length (buckets m) = length (status m)
     \<and> list_all (\<lambda>b. length b = capacity m) (buckets m)"

text \<open>
  Modelled from the spec: \<^verbatim>\<open>NewMemStore\<close>, \<^verbatim>\<open>GetEmpty\<close> and \<^verbatim>\<open>Pop\<close> are not among the
  sources. The spec: a pool owns S buckets of C identifiers each, all of them Empty
  at the start; \<^verbatim>\<open>GetEmpty\<close> is the ordered list of the indices of the buckets that are
  Empty; \<^verbatim>\<open>Pop\<close> scans the indices in ascending order for the first Full bucket,
  copies out its identifiers and resets it to Empty, and yields no identifiers when
  no bucket is Full. The factory calls \<^verbatim>\<open>Pop\<close> for one result, the identifiers.
\<close>

definition NewMemStore :: "nat \<Rightarrow> nat \<Rightarrow> MemStore" where
  "NewMemStore n c =
     \<lparr>buckets = replicate n (replicate c []), status = replicate n BucketEmpty, capacity = c\<rparr>"

definition GetEmpty :: "MemStore \<Rightarrow> nat list" where
  "GetEmpty m = filter (\<lambda>i. status m ! i = BucketEmpty) [0..<length (status m)]"

fun scanFull :: "nat \<Rightarrow> BucketStatus list \<Rightarrow> nat option" where
  "scanFull i [] = None"
| "scanFull i (v # vs) = (if v = BucketFull then Some i else scanFull (Suc i) vs)"

definition Pop :: "MemStore \<Rightarrow> string list \<times> MemStore" where
  "Pop m =
     (case scanFull 0 (status m) of
        None \<Rightarrow> ([], m)
      | Some i \<Rightarrow> (buckets m ! i, m\<lparr>status := (status m)[i := BucketEmpty]\<rparr>))"

text \<open>
  The two writes of the factory into the pool. An index out of range panics in Go:
  the result is \<^const>\<open>None\<close>.
\<close>

definition putId :: "nat \<Rightarrow> nat \<Rightarrow> string \<Rightarrow> MemStore \<Rightarrow> MemStore option" where
  "putId idx k ident m =
     (if idx < length (buckets m) \<and> k < length (buckets m ! idx)
      then Some (m\<lparr>buckets := (buckets m)[idx := (buckets m ! idx)[k := ident]]\<rparr>)
      else None)"

definition setStatus :: "nat \<Rightarrow> BucketStatus \<Rightarrow> MemStore \<Rightarrow> MemStore option" where
  "setStatus idx v m =
     (if idx < length (status m) then Some (m\<lparr>status := (status m)[idx := v]\<rparr>) else None)"

subsection \<open>The persistent record store, as Prepare sees it\<close>

text \<open>
  The database is outside the program. What \<^verbatim>\<open>Prepare\<close> observes of it is the outcome of
  the count query (scanned into a \<^verbatim>\<open>uint64\<close>), the outcome of the identifier query and,
  for each row that \<^verbatim>\<open>rows.Next()\<close> delivers, the outcome of scanning it.
\<close>

datatype dberror = DBError string

record DB =
  countResult :: "dberror + 64 word"
  queryResult :: "dberror + (dberror + string) list"

subsection \<open>Factory\<close>

datatype Ticker = Running | Stopped

record Factory =
  db :: DB
  bloom :: Bloom
  store :: MemStore
  size_f :: nat
  tick :: Ticker

text \<open>
  The configuration fields that \<^verbatim>\<open>NewFactory\<close> reads. The two that size the filter
  (\<^verbatim>\<open>BloomMaxLimit\<close>, \<^verbatim>\<open>BloomErrorRate\<close>) are represented by the hash functions they
  determine.
\<close>

record Config =
  BloomHashes :: "(byte list \<Rightarrow> nat) list"
  BucketSize :: nat
  BucketCapacity :: nat
  IDSize :: nat

definition NewFactory :: "Config \<Rightarrow> DB \<Rightarrow> Factory" where
  "NewFactory config d =
     \<lparr>db = d,
      bloom = NewBloom (BloomHashes config),
      store = NewMemStore (BucketSize config) (BucketCapacity config),
      size_f = IDSize config,
      tick = Running\<rparr>"

text \<open>
  The body of the loop over the rows: a row that fails to scan is skipped
  (\<^verbatim>\<open>continue\<close>), any other is added to the filter.
\<close>

fun addRows :: "(dberror + string) list \<Rightarrow> Bloom \<Rightarrow> Bloom" where
  "addRows [] b = b"
| "addRows (Inl err # rows) b = addRows rows b"
| "addRows (Inr ident # rows) b = addRows rows (Bloom_Add ident b)"

text \<open>
  \<^verbatim>\<open>Prepare\<close>: \<^verbatim>\<open>idCount\<close> stays 0 when the count query fails; the identifiers are
  queried only when \<^verbatim>\<open>idCount > 0\<close>; a failed query returns the factory as it is.
\<close>

definition Prepare :: "Factory \<Rightarrow> Factory" where
  "Prepare f =
     (let idCount = (case countResult (db f) of Inl err \<Rightarrow> 0 | Inr n \<Rightarrow> n)
      in if 0 < idCount
         then (case queryResult (db f) of
                 Inl err \<Rightarrow> f
               | Inr rows \<Rightarrow> f\<lparr>bloom := addRows rows (bloom f)\<rparr>)
         else f)"

definition Shutdown :: "Factory \<Rightarrow> Factory" where
  "Shutdown f = f\<lparr>tick := Stopped\<rparr>"

subsection \<open>Allocation\<close>

datatype code = OK | Unknown | ResourceExhausted

datatype error = StatusError code string | ErrorString string

datatype protoBucket = Bucket (Ids: "string list")

definition GetBucket :: "Factory \<Rightarrow> (error + protoBucket) \<times> Factory" where
  "GetBucket f =
     (let (ids, m) = Pop (store f)
      in if length ids = 0
         then (Inl (StatusError ResourceExhausted ''factory: it's empty here''), f\<lparr>store := m\<rparr>)
         else (Inr (Bucket ids), f\<lparr>store := m\<rparr>))"

definition GetLocalBucket :: "Factory \<Rightarrow> (error + string list) \<times> Factory" where
  "GetLocalBucket f =
     (let (ids, m) = Pop (store f)
      in if length ids = 0
         then (Inl (ErrorString ''factory: it's empty here''), f\<lparr>store := m\<rparr>)
         else (Inr ids, f\<lparr>store := m\<rparr>))"

subsection \<open>Filling a bucket\<close>

text \<open>
  \<^verbatim>\<open>nanoid.New(f.size)\<close> is a random source outside the program. One call yields an
  identifier and an error, either of which may be absent.
\<close>

datatype generror = GenerationError

type_synonym gen = "string \<times> generror option"

text \<open>
  The test of one iteration (\<^verbatim>\<open>err == nil && id != ""\<close>, then
  \<^verbatim>\<open>!f.bloom.Exists(fasterByte(id))\<close>): the identifier that the iteration goes on to
  store, if any. The key handed to the filter is the byte view of the identifier,
  whose content is the identifier's own bytes.
\<close>

definition accepts :: "Factory \<Rightarrow> gen \<Rightarrow> string option" where
  "accepts f g =
     (case g of (ident, err) \<Rightarrow>
        if err = None \<and> ident \<noteq> []
        then (if \<not> Bloom_Exists ident (bloom f) then Some ident else None)
        else None)"

text \<open>
  What a call of \<^verbatim>\<open>populateBucket\<close> can come to, given the outcomes of the generator
  in the order the loop draws them: it marks the bucket Full and returns, or it is
  still in the loop when the outcomes are used up, or it panics on an index.
\<close>

datatype fill = Filled Factory | Spinning | IndexPanic

fun fillLoop :: "nat \<Rightarrow> nat \<Rightarrow> gen list \<Rightarrow> Factory \<Rightarrow> fill" where
  "fillLoop idx fillCount [] f =
     (if fillCount < capacity (store f) then Spinning else Filled f)"
| "fillLoop idx fillCount (g # gs) f =
     (if fillCount < capacity (store f)
      then (case accepts f g of
              None \<Rightarrow> fillLoop idx fillCount gs f
            | Some ident \<Rightarrow>
                (case putId idx fillCount ident (store f) of
                   None \<Rightarrow> IndexPanic
                 | Some m \<Rightarrow>
                     fillLoop idx (Suc fillCount) gs
                       (f\<lparr>store := m, bloom := Bloom_Add ident (bloom f)\<rparr>)))
      else Filled f)"

definition populateBucket :: "nat \<Rightarrow> gen list \<Rightarrow> Factory \<Rightarrow> fill" where
  "populateBucket idx gs f =
     (case fillLoop idx 0 gs f of
        Filled f' \<Rightarrow>
          (case setStatus idx BucketFull (store f') of
             None \<Rightarrow> IndexPanic
           | Some m \<Rightarrow> Filled (f'\<lparr>store := m\<rparr>))
      | Spinning \<Rightarrow> Spinning
      | IndexPanic \<Rightarrow> IndexPanic)"

text \<open>
  The fill algorithm in the words of the specification: draw a candidate; discard it
  if the filter answers that it exists; otherwise add it to the filter at once and
  append it to the batch. \<open>accepted b gs\<close> is the batch that the candidates \<open>gs\<close> give
  from the filter \<open>b\<close>, and \<open>filterAfter b gs\<close> the filter they leave.
\<close>

fun accepted :: "Bloom \<Rightarrow> gen list \<Rightarrow> string list" where
  "accepted b [] = []"
| "accepted b ((ident, err) # gs) =
     (if err \<noteq> None \<or> ident = [] \<or> Bloom_Exists ident b
      then accepted b gs
      else ident # accepted (Bloom_Add ident b) gs)"

fun addAll :: "string list \<Rightarrow> Bloom \<Rightarrow> Bloom" where
  "addAll [] b = b"
| "addAll (ident # ids) b = addAll ids (Bloom_Add ident b)"

subsection \<open>The running system\<close>

text \<open>
  \<^verbatim>\<open>Run\<close> starts the scheduler; every tick it takes the list of empty buckets and, for
  each index, under the lock, starts a goroutine that fills the bucket and marks the
  bucket Busy. The fill goroutines, the scheduler and the callers of the two
  allocation functions run concurrently. The system is modelled by its atomic
  steps, interleaved in any order: a step is what one goroutine does between two
  points where another may run. A fill goroutine holds no lock while it generates,
  tests, stores and adds, so these are separate steps.
\<close>

datatype loc = LoopHead | HaveId string | Stored string

record worker =
  w_idx :: nat
  fillCount :: nat
  pc :: loc

text \<open>
  \<open>pending\<close> is what is left of the scheduler's list of empty buckets, \<open>workers\<close> the
  fill goroutines that have not returned, by number, \<open>spawned\<close> how many were started,
  and \<open>issued\<close> the batches that callers were given, in order.
\<close>

record system =
  factory :: Factory
  pending :: "nat list"
  workers :: "nat \<rightharpoonup> worker"
  spawned :: nat
  issued :: "string list list"

definition Run :: "Factory \<Rightarrow> system" where
  "Run f = \<lparr>factory = f, pending = [], workers = Map.empty, spawned = 0, issued = []\<rparr>"

text \<open>
  One turn of the scheduler's inner loop for index \<open>idx\<close>: lock, start the fill
  goroutine, set the status to Busy, unlock.
\<close>

definition claimBucket :: "nat \<Rightarrow> system \<Rightarrow> system option" where
  "claimBucket idx s =
     (case setStatus idx BucketBusy (store (factory s)) of
        None \<Rightarrow> None
      | Some m \<Rightarrow>
          Some (s\<lparr>factory := (factory s)\<lparr>store := m\<rparr>,
                  workers := (workers s)(spawned s \<mapsto> \<lparr>w_idx = idx, fillCount = 0, pc = LoopHead\<rparr>),
                  spawned := Suc (spawned s)\<rparr>))"

datatype event =
    Tick
  | Launch
  | Generate nat gen
  | StoreId nat
  | AddId nat
  | MarkFull nat
  | CallGetBucket
  | CallGetLocalBucket
  | CallShutdown

text \<open>
  The step function. \<^const>\<open>None\<close>: the event cannot happen in this state (the goroutine
  is elsewhere, the ticker is stopped), or the step panics.
\<close>

fun step :: "event \<Rightarrow> system \<Rightarrow> system option" where
  "step Tick s =
     (if tick (factory s) = Running \<and> pending s = []
      then Some (s\<lparr>pending := GetEmpty (store (factory s))\<rparr>)
      else None)"
| "step Launch s =
     (case pending s of
        [] \<Rightarrow> None
      | idx # rest \<Rightarrow> map_option (\<lambda>t. t\<lparr>pending := rest\<rparr>) (claimBucket idx s))"
| "step (Generate g out) s =
     (case workers s g of
        None \<Rightarrow> None
      | Some w \<Rightarrow>
          if pc w = LoopHead \<and> fillCount w < capacity (store (factory s))
          then (case accepts (factory s) out of
                  None \<Rightarrow> Some s
                | Some ident \<Rightarrow> Some (s\<lparr>workers := (workers s)(g \<mapsto> w\<lparr>pc := HaveId ident\<rparr>)\<rparr>))
          else None)"
| "step (StoreId g) s =
     (case workers s g of
        None \<Rightarrow> None
      | Some w \<Rightarrow>
          (case pc w of
             HaveId ident \<Rightarrow>
               (case putId (w_idx w) (fillCount w) ident (store (factory s)) of
                  None \<Rightarrow> None
                | Some m \<Rightarrow>
                    Some (s\<lparr>factory := (factory s)\<lparr>store := m\<rparr>,
                            workers := (workers s)(g \<mapsto> w\<lparr>pc := Stored ident\<rparr>)\<rparr>))
           | _ \<Rightarrow> None))"
| "step (AddId g) s =
     (case workers s g of
        None \<Rightarrow> None
      | Some w \<Rightarrow>
          (case pc w of
             Stored ident \<Rightarrow>
               Some (s\<lparr>factory := (factory s)\<lparr>bloom := Bloom_Add ident (bloom (factory s))\<rparr>,
                       workers := (workers s)(g \<mapsto> w\<lparr>fillCount := Suc (fillCount w), pc := LoopHead\<rparr>)\<rparr>)
           | _ \<Rightarrow> None))"
| "step (MarkFull g) s =
     (case workers s g of
        None \<Rightarrow> None
      | Some w \<Rightarrow>
          if pc w = LoopHead \<and> \<not> fillCount w < capacity (store (factory s))
          then (case setStatus (w_idx w) BucketFull (store (factory s)) of
                  None \<Rightarrow> None
                | Some m \<Rightarrow>
                    Some (s\<lparr>factory := (factory s)\<lparr>store := m\<rparr>, workers := (workers s)(g := None)\<rparr>))
          else None)"
| "step CallGetBucket s =
     (case GetBucket (factory s) of
        (Inl err, f) \<Rightarrow> Some (s\<lparr>factory := f\<rparr>)
      | (Inr b, f) \<Rightarrow> Some (s\<lparr>factory := f, issued := issued s @ [Ids b]\<rparr>))"
| "step CallGetLocalBucket s =
     (case GetLocalBucket (factory s) of
        (Inl err, f) \<Rightarrow> Some (s\<lparr>factory := f\<rparr>)
      | (Inr ids, f) \<Rightarrow> Some (s\<lparr>factory := f, issued := issued s @ [ids]\<rparr>))"
| "step CallShutdown s = Some (s\<lparr>factory := Shutdown (factory s)\<rparr>)"

fun run :: "event list \<Rightarrow> system \<Rightarrow> system option" where
  "run [] s = Some s"
| "run (e # es) s = (case step e s of None \<Rightarrow> None | Some t \<Rightarrow> run es t)"

text \<open>The events of the fill goroutines.\<close>

fun fillEvent :: "event \<Rightarrow> bool" where
  "fillEvent (Generate g out) = True"
| "fillEvent (StoreId g) = True"
| "fillEvent (AddId g) = True"
| "fillEvent (MarkFull g) = True"
| "fillEvent e = False"

text \<open>
  What holds of the scheduler and the fill goroutines in every state of a run: the
  buckets the scheduler has yet to claim are distinct and Empty; every fill
  goroutine works on a Busy bucket of its own.
\<close>

definition inv :: "system \<Rightarrow> bool" where
  "inv s \<longleftrightarrow>
     distinct (pending s)
     \<and> (\<forall>i \<in> set (pending s). i < length (status (store (factory s)))
           \<and> status (store (factory s)) ! i = BucketEmpty)
     \<and> (\<forall>g w. workers s g = Some w \<longrightarrow>
           w_idx w < length (status (store (factory s)))
           \<and> status (store (factory s)) ! w_idx w = BucketBusy)
     \<and> (\<forall>g g' w w'. workers s g = Some w \<longrightarrow> workers s g' = Some w' \<longrightarrow>
           w_idx w = w_idx w' \<longrightarrow> g = g')"

text \<open>The transitions of one bucket's status that the specification allows.\<close>

fun allowed :: "BucketStatus \<Rightarrow> BucketStatus \<Rightarrow> bool" where
  "allowed BucketEmpty BucketBusy = True"
| "allowed BucketBusy BucketFull = True"
| "allowed BucketFull BucketEmpty = True"
| "allowed a b = False"

text \<open>
  The identifiers that \<^verbatim>\<open>Prepare\<close> reads from the store: none when the count query
  fails or counts zero, none when the identifier query fails, otherwise those of the
  delivered rows that scan.
\<close>

fun scanned :: "(dberror + string) list \<Rightarrow> string list" where
  "scanned [] = []"
| "scanned (Inl err # rows) = scanned rows"
| "scanned (Inr ident # rows) = ident # scanned rows"

definition loaded :: "DB \<Rightarrow> string list" where
  "loaded d =
     (case countResult d of
        Inl err \<Rightarrow> []
      | Inr n \<Rightarrow>
          if 0 < n
          then (case queryResult d of Inl err \<Rightarrow> [] | Inr rows \<Rightarrow> scanned rows)
          else [])"

subsection \<open>Concrete configurations and states\<close>

text \<open>A filter with two hash functions: the length of the key and the sum of its bytes.\<close>

definition hashLenSum :: "(byte list \<Rightarrow> nat) list" where
  "hashLenSum = [length, \<lambda>k. sum_list (map of_char k)]"

definition dbEmpty :: DB where
  "dbEmpty = \<lparr>countResult = Inr 0, queryResult = Inr []\<rparr>"

text \<open>A store that holds the two identifiers of the specification's scenario C.\<close>

definition dbTwo :: DB where
  "dbTwo = \<lparr>countResult = Inr 2, queryResult = Inr [Inr ''abcd'', Inr ''efgh'']\<rparr>"

text \<open>A store whose count query fails, and one whose second row does not scan.\<close>

definition dbDown :: DB where
  "dbDown = \<lparr>countResult = Inl (DBError ''connection refused''),
              queryResult = Inr [Inr ''abcd'', Inr ''efgh'']\<rparr>"

definition dbBadRow :: DB where
  "dbBadRow = \<lparr>countResult = Inr 3,
                queryResult = Inr [Inr ''abcd'', Inl (DBError ''cannot scan''), Inr ''efgh'']\<rparr>"

text \<open>Two buckets of one identifier each; one bucket of three; one bucket of none.\<close>

definition cfgTwoByOne :: Config where
  "cfgTwoByOne = \<lparr>BloomHashes = hashLenSum, BucketSize = 2, BucketCapacity = 1, IDSize = 1\<rparr>"

definition cfgOneByThree :: Config where
  "cfgOneByThree = \<lparr>BloomHashes = hashLenSum, BucketSize = 1, BucketCapacity = 3, IDSize = 4\<rparr>"

definition cfgZeroCapacity :: Config where
  "cfgZeroCapacity = \<lparr>BloomHashes = hashLenSum, BucketSize = 1, BucketCapacity = 0, IDSize = 7\<rparr>"

text \<open>Memory that holds the two bytes of \<^verbatim>\<open>"ab"\<close> at address 4096.\<close>

definition memAB :: memory where
  "memAB a = (if a = 4096 then CHR ''a'' else if a = 4097 then CHR ''b'' else CHR 0x00)"

text \<open>
  Two fill goroutines that draw the same identifier, each testing the filter before
  the other has added to it; then two allocations.
\<close>

definition raceSchedule :: "event list" where
  "raceSchedule =
     [Tick, Launch, Launch,
      Generate 0 (''a'', None), Generate 1 (''a'', None),
      StoreId 0, AddId 0, StoreId 1, AddId 1,
      MarkFull 0, MarkFull 1,
      CallGetLocalBucket, CallGetBucket]"

text \<open>The system after one tick and one launch: a fill goroutine at work on bucket 0.\<close>

definition sysOneWorker :: system where
  "sysOneWorker =
     \<lparr>factory = (NewFactory cfgTwoByOne dbEmpty)
        \<lparr>store := \<lparr>buckets = [[[]], [[]]], status = [BucketBusy, BucketEmpty], capacity = 1\<rparr>\<rparr>,
      pending = [1],
      workers = [0 \<mapsto> \<lparr>w_idx = 0, fillCount = 0, pc = LoopHead\<rparr>],
      spawned = 1,
      issued = []\<rparr>"

text \<open>
  A factory whose only bucket has no room and is Full, and one whose only bucket holds
  three identifiers and is Full.
\<close>


definition facZeroFull :: Factory where
  "facZeroFull =
     (NewFactory cfgZeroCapacity dbEmpty)
       \<lparr>store := \<lparr>buckets = [[]], status = [BucketFull], capacity = 0\<rparr>\<rparr>"

definition facOneFull :: Factory where
  "facOneFull =
     (NewFactory cfgOneByThree dbEmpty)
       \<lparr>store := \<lparr>buckets = [[''abcd'', ''efgh'', ''ijkl'']], status = [BucketFull], capacity = 3\<rparr>\<rparr>"

section \<open>Properties\<close>

subsection \<open>The membership filter\<close>

lemma hashes_Bloom_Add: "hashes (Bloom_Add k b) = hashes b"
  by (simp add: Bloom_Add_def)

lemma bits_Bloom_Add: "bits b \<subseteq> bits (Bloom_Add k b)"
  by (auto simp: Bloom_Add_def)

text \<open>No false negatives: a key that was added exists, and stays so.\<close>

lemma Exists_Add_same: "Bloom_Exists k (Bloom_Add k b)"
  by (simp add: Bloom_Exists_def Bloom_Add_def list_all_iff)

lemma Exists_Add_mono: "Bloom_Exists k b \<Longrightarrow> Bloom_Exists k (Bloom_Add k' b)"
  by (simp add: Bloom_Exists_def Bloom_Add_def list_all_iff)

lemma Exists_addAll_mono: "Bloom_Exists k b \<Longrightarrow> Bloom_Exists k (addAll ids b)"
  by (induction ids arbitrary: b) (simp_all add: Exists_Add_mono)

lemma Exists_addAll_mem: "k \<in> set ids \<Longrightarrow> Bloom_Exists k (addAll ids b)"
  by (induction ids arbitrary: b) (auto simp: Exists_Add_same Exists_addAll_mono)

subsection \<open>The byte view of a string\<close>

text \<open>
  C10. For every string \<open>s\<close>, \<^verbatim>\<open>fasterByte(s)\<close> is a byte sequence of length
  \<^verbatim>\<open>len(s)\<close> whose i-th element is the i-th byte of \<open>s\<close>: the slice has the length of
  the string, and at every index below it the slice and the string read the same
  byte of memory, so that the slice's value is the string's value.
\<close>

theorem fasterByte_bytes:
  "len (fasterByte s) = Len s
   \<and> length (sliceValue mem (fasterByte s)) = length (stringValue mem s)
   \<and> (\<forall>i < Len s. sliceByte mem (fasterByte s) i = stringByte mem s i
         \<and> sliceValue mem (fasterByte s) ! i = stringValue mem s ! i)"
  by (simp add: fasterByte_def sliceValue_def stringValue_def sliceByte_def stringByte_def)

theorem fasterByte_bytes_witness:
  "stringValue memAB \<lparr>Data = 4096, Len = 2\<rparr> = ''ab''
   \<and> len (fasterByte \<lparr>Data = 4096, Len = 2\<rparr>) = 2
   \<and> (1::nat) < Len \<lparr>Data = 4096, Len = 2\<rparr>
   \<and> sliceByte memAB (fasterByte \<lparr>Data = 4096, Len = 2\<rparr>) 1 = CHR ''b''
   \<and> sliceValue memAB (fasterByte \<lparr>Data = 4096, Len = 2\<rparr>) ! 1 = CHR ''b''"
proof -
  have v: "stringValue memAB \<lparr>Data = 4096, Len = 2\<rparr> = ''ab''"
    by code_simp
  have b: "stringByte memAB \<lparr>Data = 4096, Len = 2\<rparr> 1 = CHR ''b''"
    by code_simp
  show ?thesis
    using fasterByte_bytes [of "\<lparr>Data = 4096, Len = 2\<rparr>" memAB] v b by simp
qed

subsection \<open>Warm-up\<close>

lemma addRows_scanned: "addRows rows b = addAll (scanned rows) b"
  by (induction rows b rule: addRows.induct) simp_all

lemma scanned_map_Inr: "scanned (map Inr ids) = ids"
  by (induction ids) simp_all

lemma Prepare_loaded: "Prepare f = f\<lparr>bloom := addAll (loaded (db f)) (bloom f)\<rparr>"
  by (simp add: Prepare_def loaded_def addRows_scanned Let_def split: sum.splits)

text \<open>
  C7. \<^verbatim>\<open>Prepare\<close> never aborts startup. Whatever the count query, the identifier
  query and the scan of each row come to, \<^verbatim>\<open>Prepare\<close> returns the factory it was
  called on, with nothing changed but the filter, to which it has added the
  identifiers it could read: all of them, some of them or none. When the count query
  fails, or the identifier query, the factory comes back as it was. No key that the
  filter had is lost.
\<close>

theorem Prepare_never_aborts:
  "Prepare f = f\<lparr>bloom := addAll (loaded (db f)) (bloom f)\<rparr>
   \<and> (isl (countResult (db f)) \<longrightarrow> Prepare f = f)
   \<and> (isl (queryResult (db f)) \<longrightarrow> Prepare f = f)
   \<and> (\<forall>k. Bloom_Exists k (bloom f) \<longrightarrow> Bloom_Exists k (bloom (Prepare f)))"
proof -
  have 1: "Prepare f = f\<lparr>bloom := addAll (loaded (db f)) (bloom f)\<rparr>"
    by (rule Prepare_loaded)
  have 2: "isl (countResult (db f)) \<longrightarrow> Prepare f = f"
    by (auto simp: Prepare_def isl_def)
  have 3: "isl (queryResult (db f)) \<longrightarrow> Prepare f = f"
    by (auto simp: Prepare_def Let_def isl_def)
  have 4: "\<forall>k. Bloom_Exists k (bloom f) \<longrightarrow> Bloom_Exists k (bloom (Prepare f))"
    by (simp add: Prepare_loaded Exists_addAll_mono)
  from 1 2 3 4 show ?thesis by blast
qed

theorem Prepare_never_aborts_witness:
  "isl (countResult (db (NewFactory cfgOneByThree dbDown)))
   \<and> Prepare (NewFactory cfgOneByThree dbDown) = NewFactory cfgOneByThree dbDown
   \<and> loaded dbBadRow = [''abcd'', ''efgh'']
   \<and> bits (bloom (Prepare (NewFactory cfgOneByThree dbBadRow))) = {4, 394, 410}"
proof -
  have c: "isl (countResult (db (NewFactory cfgOneByThree dbDown)))"
    by (simp add: NewFactory_def dbDown_def)
  have down: "Prepare (NewFactory cfgOneByThree dbDown) = NewFactory cfgOneByThree dbDown"
    using Prepare_never_aborts [of "NewFactory cfgOneByThree dbDown"] c by blast
  have l: "loaded dbBadRow = [''abcd'', ''efgh'']"
    by code_simp
  have b: "bits (addAll [''abcd'', ''efgh''] (bloom (NewFactory cfgOneByThree dbBadRow)))
           = {4, 394, 410}"
    by code_simp
  have d: "db (NewFactory cfgOneByThree dbBadRow) = dbBadRow"
    by (simp add: NewFactory_def)
  have "Prepare (NewFactory cfgOneByThree dbBadRow)
        = (NewFactory cfgOneByThree dbBadRow)
            \<lparr>bloom := addAll [''abcd'', ''efgh''] (bloom (NewFactory cfgOneByThree dbBadRow))\<rparr>"
    using Prepare_never_aborts [of "NewFactory cfgOneByThree dbBadRow"] l d by metis
  then have bad: "bits (bloom (Prepare (NewFactory cfgOneByThree dbBadRow))) = {4, 394, 410}"
    using b by simp
  from c down l bad show ?thesis by blast
qed

text \<open>
  C5. After \<^verbatim>\<open>Prepare\<close> has run against a store that holds K > 0 identifiers (the
  count query answers K, and the identifier query delivers the identifiers, every
  row scanning), each of them has been added to the filter: \<^verbatim>\<open>Exists\<close> is true for
  all of them.
\<close>

theorem Prepare_warmup:
  assumes "countResult (db f) = Inr K" and "0 < K"
    and "queryResult (db f) = Inr (map Inr ids)"
  shows "\<forall>k \<in> set ids. Bloom_Exists k (bloom (Prepare f))"
proof -
  from assms have "loaded (db f) = ids"
    by (simp add: loaded_def scanned_map_Inr)
  then show ?thesis
    by (simp add: Prepare_loaded Exists_addAll_mem)
qed

theorem Prepare_warmup_witness:
  "countResult (db (NewFactory cfgOneByThree dbTwo)) = Inr 2 \<and> (0::64 word) < 2
   \<and> queryResult (db (NewFactory cfgOneByThree dbTwo)) = Inr (map Inr [''abcd'', ''efgh''])
   \<and> Bloom_Exists ''abcd'' (bloom (Prepare (NewFactory cfgOneByThree dbTwo)))
   \<and> Bloom_Exists ''efgh'' (bloom (Prepare (NewFactory cfgOneByThree dbTwo)))"
proof -
  have c: "countResult (db (NewFactory cfgOneByThree dbTwo)) = Inr 2"
    by (simp add: NewFactory_def dbTwo_def)
  have p: "(0::64 word) < 2"
    by simp
  have q: "queryResult (db (NewFactory cfgOneByThree dbTwo)) = Inr (map Inr [''abcd'', ''efgh''])"
    by (simp add: NewFactory_def dbTwo_def)
  show ?thesis
    using Prepare_warmup [OF c p q] c p q by simp
qed

subsection \<open>Shutdown\<close>

text \<open>
  C9. \<^verbatim>\<open>Shutdown\<close> stops the ticker and nothing else. The filter, the pool (every
  bucket's status and content) and the identifier size are as before; in the
  running system the fill goroutines, the scheduler's list and the batches issued
  are as before; and every step of a fill goroutine goes on after the shutdown
  exactly as it would have gone without it.
\<close>

theorem Shutdown_frame:
  "bloom (Shutdown f) = bloom f \<and> store (Shutdown f) = store f
   \<and> size_f (Shutdown f) = size_f f \<and> db (Shutdown f) = db f
   \<and> tick (Shutdown f) = Stopped
   \<and> step CallShutdown s = Some (s\<lparr>factory := Shutdown (factory s)\<rparr>)
   \<and> workers (s\<lparr>factory := Shutdown (factory s)\<rparr>) = workers s
   \<and> pending (s\<lparr>factory := Shutdown (factory s)\<rparr>) = pending s
   \<and> issued (s\<lparr>factory := Shutdown (factory s)\<rparr>) = issued s
   \<and> (fillEvent e \<longrightarrow>
        step e (s\<lparr>factory := Shutdown (factory s)\<rparr>)
        = map_option (\<lambda>t. t\<lparr>factory := Shutdown (factory t)\<rparr>) (step e s))"
proof -
  have "fillEvent e \<longrightarrow>
        step e (s\<lparr>factory := Shutdown (factory s)\<rparr>)
        = map_option (\<lambda>t. t\<lparr>factory := Shutdown (factory t)\<rparr>) (step e s)"
    by (cases e) (auto simp: Shutdown_def accepts_def split: option.splits loc.splits prod.splits)
  then show ?thesis
    by (simp add: Shutdown_def)
qed

theorem Shutdown_frame_witness:
  "fillEvent (Generate 0 (''a'', None))
   \<and> map_option (\<lambda>t. (map_option pc (workers t 0), tick (factory t)))
        (step (Generate 0 (''a'', None)) (sysOneWorker\<lparr>factory := Shutdown (factory sysOneWorker)\<rparr>))
     = Some (Some (HaveId ''a''), Stopped)"
proof -
  have e: "map_option (\<lambda>t. map_option pc (workers t 0)) (step (Generate 0 (''a'', None)) sysOneWorker)
           = Some (Some (HaveId ''a''))"
    by code_simp
  have f: "fillEvent (Generate 0 (''a'', None))"
    by simp
  have "step (Generate 0 (''a'', None)) (sysOneWorker\<lparr>factory := Shutdown (factory sysOneWorker)\<rparr>)
        = map_option (\<lambda>t. t\<lparr>factory := Shutdown (factory t)\<rparr>)
            (step (Generate 0 (''a'', None)) sysOneWorker)"
    using Shutdown_frame [of _ sysOneWorker "Generate 0 (''a'', None)"] f by blast
  then show ?thesis
    using e f by (auto simp: Shutdown_def)
qed

subsection \<open>Allocation\<close>

text \<open>
  C8. The remote and the local allocation are the same operation but for the
  representation of the result. On the same factory, both leave the factory that
  \<^verbatim>\<open>Pop\<close> leaves; either both succeed, with the identifiers that \<^verbatim>\<open>Pop\<close> returned, or
  both fail.
\<close>

theorem allocate_same:
  "snd (GetBucket f) = f\<lparr>store := snd (Pop (store f))\<rparr>
   \<and> snd (GetLocalBucket f) = f\<lparr>store := snd (Pop (store f))\<rparr>
   \<and> (case (fst (GetBucket f), fst (GetLocalBucket f)) of
         (Inr b, Inr ids) \<Rightarrow> Ids b = ids \<and> ids = fst (Pop (store f))
       | (Inl e, Inl e') \<Rightarrow> fst (Pop (store f)) = []
       | _ \<Rightarrow> False)"
  by (simp add: GetBucket_def GetLocalBucket_def split: prod.splits)

subsection \<open>Pop and the two allocation functions\<close>

lemma scanFull_None: "scanFull i vs = None \<longleftrightarrow> BucketFull \<notin> set vs"
  by (induction vs arbitrary: i) auto

lemma scanFull_Some:
  "scanFull i vs = Some j \<Longrightarrow>
     i \<le> j \<and> j - i < length vs \<and> vs ! (j - i) = BucketFull \<and> (\<forall>k < j - i. vs ! k \<noteq> BucketFull)"
proof (induction vs arbitrary: i)
  case Nil
  then show ?case by simp
next
  case (Cons v vs)
  show ?case
  proof (cases "v = BucketFull")
    case True
    with Cons.prems show ?thesis by simp
  next
    case False
    with Cons.prems have s: "scanFull (Suc i) vs = Some j" by simp
    from Cons.IH [OF s] have ih: "Suc i \<le> j" "j - Suc i < length vs"
      "vs ! (j - Suc i) = BucketFull" "\<forall>k < j - Suc i. vs ! k \<noteq> BucketFull"
      by auto
    from ih(1) have e: "j - i = Suc (j - Suc i)" by arith
    have "\<forall>k < j - i. (v # vs) ! k \<noteq> BucketFull"
    proof (intro allI impI)
      fix k assume "k < j - i"
      then show "(v # vs) ! k \<noteq> BucketFull"
        using False ih(4) e by (cases k) auto
    qed
    with ih e show ?thesis by auto
  qed
qed

lemma Pop_cases:
  "(BucketFull \<notin> set (status m) \<and> Pop m = ([], m))
   \<or> (\<exists>i < length (status m). status m ! i = BucketFull \<and> (\<forall>k < i. status m ! k \<noteq> BucketFull)
        \<and> Pop m = (buckets m ! i, m\<lparr>status := (status m)[i := BucketEmpty]\<rparr>))"
proof (cases "scanFull 0 (status m)")
  case None
  then have "BucketFull \<notin> set (status m)"
    by (simp add: scanFull_None)
  with None show ?thesis
    by (simp add: Pop_def)
next
  case (Some i)
  from scanFull_Some [OF Some] Some show ?thesis
    by (auto simp: Pop_def)
qed

lemma wfStore_bucket: "wfStore m \<Longrightarrow> i < length (status m) \<Longrightarrow> length (buckets m ! i) = capacity m"
  by (simp add: wfStore_def list_all_length)

lemma allocate_results:
  "fst (GetBucket f) =
     (if fst (Pop (store f)) = []
      then Inl (StatusError ResourceExhausted ''factory: it's empty here'')
      else Inr (Bucket (fst (Pop (store f)))))"
  "fst (GetLocalBucket f) =
     (if fst (Pop (store f)) = []
      then Inl (ErrorString ''factory: it's empty here'')
      else Inr (fst (Pop (store f))))"
  by (simp_all add: GetBucket_def GetLocalBucket_def split: prod.splits)

text \<open>
  C3, amended. Either allocation function fails exactly when \<^verbatim>\<open>Pop\<close> yields no
  identifiers, the remote one with the status code \<^verbatim>\<open>ResourceExhausted\<close>, and a failure
  carries no identifiers; a success carries all that \<^verbatim>\<open>Pop\<close> yielded. In a pool whose
  buckets each hold \<^verbatim>\<open>capacity\<close> identifiers, and whose capacity is positive, \<^verbatim>\<open>Pop\<close>
  yields no identifiers exactly when no bucket is Full, and otherwise the whole
  content, \<^verbatim>\<open>capacity\<close> identifiers, of the Full bucket of lowest index.
\<close>

theorem allocate_exhausted:
  "(isl (fst (GetLocalBucket f)) \<longleftrightarrow> fst (Pop (store f)) = [])
   \<and> (isl (fst (GetBucket f)) \<longleftrightarrow> fst (Pop (store f)) = [])
   \<and> (fst (Pop (store f)) = [] \<longrightarrow>
        fst (GetBucket f) = Inl (StatusError ResourceExhausted ''factory: it's empty here'')
        \<and> fst (GetLocalBucket f) = Inl (ErrorString ''factory: it's empty here''))
   \<and> (fst (Pop (store f)) \<noteq> [] \<longrightarrow>
        fst (GetBucket f) = Inr (Bucket (fst (Pop (store f))))
        \<and> fst (GetLocalBucket f) = Inr (fst (Pop (store f))))
   \<and> (wfStore (store f) \<and> 0 < capacity (store f) \<longrightarrow>
        (fst (Pop (store f)) = [] \<longleftrightarrow> BucketFull \<notin> set (status (store f)))
        \<and> (fst (Pop (store f)) \<noteq> [] \<longrightarrow>
             length (fst (Pop (store f))) = capacity (store f)
             \<and> (\<exists>i < length (status (store f)).
                   status (store f) ! i = BucketFull
                   \<and> (\<forall>k < i. status (store f) ! k \<noteq> BucketFull)
                   \<and> fst (Pop (store f)) = buckets (store f) ! i)))"
proof -
  have a: "isl (fst (GetLocalBucket f)) \<longleftrightarrow> fst (Pop (store f)) = []"
    by (simp add: allocate_results)
  have b: "isl (fst (GetBucket f)) \<longleftrightarrow> fst (Pop (store f)) = []"
    by (simp add: allocate_results)
  have c: "fst (Pop (store f)) = [] \<longrightarrow>
        fst (GetBucket f) = Inl (StatusError ResourceExhausted ''factory: it's empty here'')
        \<and> fst (GetLocalBucket f) = Inl (ErrorString ''factory: it's empty here'')"
    by (simp add: allocate_results)
  have d: "fst (Pop (store f)) \<noteq> [] \<longrightarrow>
        fst (GetBucket f) = Inr (Bucket (fst (Pop (store f))))
        \<and> fst (GetLocalBucket f) = Inr (fst (Pop (store f)))"
    by (simp add: allocate_results)
  have e: "wfStore (store f) \<and> 0 < capacity (store f) \<longrightarrow>
        (fst (Pop (store f)) = [] \<longleftrightarrow> BucketFull \<notin> set (status (store f)))
        \<and> (fst (Pop (store f)) \<noteq> [] \<longrightarrow>
             length (fst (Pop (store f))) = capacity (store f)
             \<and> (\<exists>i < length (status (store f)).
                   status (store f) ! i = BucketFull
                   \<and> (\<forall>k < i. status (store f) ! k \<noteq> BucketFull)
                   \<and> fst (Pop (store f)) = buckets (store f) ! i))"
  proof (intro impI)
    assume w: "wfStore (store f) \<and> 0 < capacity (store f)"
    from Pop_cases [of "store f"] show "(fst (Pop (store f)) = [] \<longleftrightarrow> BucketFull \<notin> set (status (store f)))
        \<and> (fst (Pop (store f)) \<noteq> [] \<longrightarrow>
             length (fst (Pop (store f))) = capacity (store f)
             \<and> (\<exists>i < length (status (store f)).
                   status (store f) ! i = BucketFull
                   \<and> (\<forall>k < i. status (store f) ! k \<noteq> BucketFull)
                   \<and> fst (Pop (store f)) = buckets (store f) ! i))"
    proof
      assume "BucketFull \<notin> set (status (store f)) \<and> Pop (store f) = ([], store f)"
      then show ?thesis by simp
    next
      assume "\<exists>i < length (status (store f)). status (store f) ! i = BucketFull
          \<and> (\<forall>k < i. status (store f) ! k \<noteq> BucketFull)
          \<and> Pop (store f) = (buckets (store f) ! i,
               (store f)\<lparr>status := (status (store f))[i := BucketEmpty]\<rparr>)"
      then obtain i where i: "i < length (status (store f))" "status (store f) ! i = BucketFull"
        "\<forall>k < i. status (store f) ! k \<noteq> BucketFull"
        "fst (Pop (store f)) = buckets (store f) ! i"
        by auto
      from w i(1) have l: "length (buckets (store f) ! i) = capacity (store f)"
        by (simp add: wfStore_bucket)
      with w i(4) have ne: "fst (Pop (store f)) \<noteq> []" by auto
      from i(1,2) have "BucketFull \<in> set (status (store f))"
        by (metis nth_mem)
      with ne l i show ?thesis by auto
    qed
  qed
  from a b c d e show ?thesis by blast
qed

theorem allocate_exhausted_witness:
  "wfStore (store facOneFull) \<and> 0 < capacity (store facOneFull)
   \<and> fst (Pop (store facOneFull)) \<noteq> []
   \<and> fst (GetLocalBucket facOneFull) = Inr [''abcd'', ''efgh'', ''ijkl'']
   \<and> fst (GetBucket facOneFull) = Inr (Bucket [''abcd'', ''efgh'', ''ijkl''])
   \<and> length (fst (Pop (store facOneFull))) = capacity (store facOneFull)
   \<and> fst (Pop (store (NewFactory cfgOneByThree dbEmpty))) = []
   \<and> fst (GetBucket (NewFactory cfgOneByThree dbEmpty))
       = Inl (StatusError ResourceExhausted ''factory: it's empty here'')"
proof -
  have w: "wfStore (store facOneFull) \<and> 0 < capacity (store facOneFull)"
    by code_simp
  have p: "fst (Pop (store facOneFull)) = [''abcd'', ''efgh'', ''ijkl'']"
    by code_simp
  have q: "fst (Pop (store (NewFactory cfgOneByThree dbEmpty))) = []"
    by code_simp
  show ?thesis
    using allocate_exhausted [of facOneFull] allocate_exhausted [of "NewFactory cfgOneByThree dbEmpty"]
      w p q by simp
qed

text \<open>
  With a capacity of zero the claim as stated fails: after a tick, the launch of the
  fill goroutine and its return, the bucket is Full; both allocation functions fail
  all the same, since the Full bucket holds no identifiers.
\<close>

theorem allocate_zero_capacity_counterexample:
  "map_option (store \<circ> factory)
       (run [Tick, Launch, MarkFull 0] (Run (Prepare (NewFactory cfgZeroCapacity dbEmpty))))
     = Some (store facZeroFull)
   \<and> \<not> (isl (fst (GetLocalBucket facZeroFull)) \<longleftrightarrow> BucketFull \<notin> set (status (store facZeroFull)))
   \<and> \<not> (isl (fst (GetBucket facZeroFull)) \<longleftrightarrow> BucketFull \<notin> set (status (store facZeroFull)))
   \<and> fst (GetLocalBucket facZeroFull) = Inl (ErrorString ''factory: it's empty here'')
   \<and> fst (GetBucket facZeroFull) = Inl (StatusError ResourceExhausted ''factory: it's empty here'')"
  by code_simp

end
